theory Spec2Isabelle
  imports Main "HOL-Library.Word"
begin

unbundle bit_operations_syntax

section \<open>Data model (xt\_expr.h)\<close>

text \<open>
  The default build (\<^verbatim>\<open>BIG_BALLS\<close> undefined) makes \<^verbatim>\<open>uintxp_t\<close> and \<^verbatim>\<open>__uxp_t\<close> 32-bit
  unsigned integers. A micro-expression is \<^verbatim>\<open>struct xt_expr_micro\<close>: an 8-bit \<^verbatim>\<open>op\<close> and
  the two operand slots.
\<close>

type_synonym uintxp_t = "32 word"

record xt_expr_micro =
  op :: "8 word"
  lh :: uintxp_t
  rh :: uintxp_t

text \<open>The first anonymous enum: opcodes, the opcode mask and the two immediate flags.\<close>

definition XTEXPR_OP_NONE :: "8 word" where "XTEXPR_OP_NONE = 0"
definition XTEXPR_OP_ADD :: "8 word" where "XTEXPR_OP_ADD = 1"
definition XTEXPR_OP_SUB :: "8 word" where "XTEXPR_OP_SUB = 2"
definition XTEXPR_OP_MUL :: "8 word" where "XTEXPR_OP_MUL = 3"
definition XTEXPR_OP_DIV :: "8 word" where "XTEXPR_OP_DIV = 4"
definition XTEXPR_OP_MOD :: "8 word" where "XTEXPR_OP_MOD = 5"
definition XTEXPR_OP_NEG :: "8 word" where "XTEXPR_OP_NEG = 6"
definition XTEXPR_OP_LT :: "8 word" where "XTEXPR_OP_LT = 7"
definition XTEXPR_OP_LE :: "8 word" where "XTEXPR_OP_LE = 8"
definition XTEXPR_OP_EQ :: "8 word" where "XTEXPR_OP_EQ = 9"
definition XTEXPR_OP_NE :: "8 word" where "XTEXPR_OP_NE = 10"
definition XTEXPR_OP_GT :: "8 word" where "XTEXPR_OP_GT = 11"
definition XTEXPR_OP_GE :: "8 word" where "XTEXPR_OP_GE = 12"
definition XTEXPR_OP_LNOT :: "8 word" where "XTEXPR_OP_LNOT = 13"
definition XTEXPR_OP_LAND :: "8 word" where "XTEXPR_OP_LAND = 14"
definition XTEXPR_OP_LOR :: "8 word" where "XTEXPR_OP_LOR = 15"
definition XTEXPR_OP_SHL :: "8 word" where "XTEXPR_OP_SHL = 16"
definition XTEXPR_OP_SHR :: "8 word" where "XTEXPR_OP_SHR = 17"
definition XTEXPR_OP_NOT :: "8 word" where "XTEXPR_OP_NOT = 18"
definition XTEXPR_OP_AND :: "8 word" where "XTEXPR_OP_AND = 19"
definition XTEXPR_OP_OR :: "8 word" where "XTEXPR_OP_OR = 20"
definition XTEXPR_OP_XOR :: "8 word" where "XTEXPR_OP_XOR = 21"
definition XTEXPR_OP_ASG :: "8 word" where "XTEXPR_OP_ASG = 22"
definition XTEXPR_OP_OFS :: "8 word" where "XTEXPR_OP_OFS = 23"
definition XTEXPR_OP_DEREF :: "8 word" where "XTEXPR_OP_DEREF = 24"
definition XTEXPR_OP_IF :: "8 word" where "XTEXPR_OP_IF = 25"
definition XTEXPR_OP_CASE :: "8 word" where "XTEXPR_OP_CASE = 26"
definition XTEXPR_OPMASK :: "8 word" where "XTEXPR_OPMASK = 0xFF"
definition XTEXPR_LHIMM :: "8 word" where "XTEXPR_LHIMM = push_bit 6 1"
definition XTEXPR_RHIMM :: "8 word" where "XTEXPR_RHIMM = push_bit 7 1"

text \<open>The second anonymous enum: the operand types ("registers").\<close>

definition XTEXPR_TYPE_NONE :: uintxp_t where "XTEXPR_TYPE_NONE = 0"
definition XTEXPR_TYPE_SUB :: uintxp_t where "XTEXPR_TYPE_SUB = 1"
definition XTEXPR_TYPE_THIS :: uintxp_t where "XTEXPR_TYPE_THIS = 2"
definition XTEXPR_TYPE_NFMARK :: uintxp_t where "XTEXPR_TYPE_NFMARK = 3"
definition XTEXPR_TYPE_CTMARK :: uintxp_t where "XTEXPR_TYPE_CTMARK = 4"
definition XTEXPR_TYPE_SECMARK :: uintxp_t where "XTEXPR_TYPE_SECMARK = 5"
definition XTEXPR_TYPE_L2PROTO :: uintxp_t where "XTEXPR_TYPE_L2PROTO = 6"
definition XTEXPR_TYPE_L3PROTO :: uintxp_t where "XTEXPR_TYPE_L3PROTO = 7"
definition XTEXPR_TYPE_L4PROTO :: uintxp_t where "XTEXPR_TYPE_L4PROTO = 8"
definition XTEXPR_TYPE_L4OFFSET :: uintxp_t where "XTEXPR_TYPE_L4OFFSET = 9"

section \<open>The packet context\<close>

text \<open>
  Of \<^verbatim>\<open>struct sk_buff\<close> the evaluator reads \<^verbatim>\<open>mark\<close>, \<^verbatim>\<open>protocol\<close> (a big-endian 16-bit
  value) and, through \<^verbatim>\<open>nf_ct_get\<close>, the connection the packet belongs to, which may be
  absent (a null pointer). \<^verbatim>\<open>ntohl\<close> is the kernel's macro: a 32-bit byte swap on a
  little-endian host, the identity on a big-endian one.
\<close>

record nf_conn =
  ct_mark :: "32 word"

record sk_buff =
  mark :: "32 word"
  protocol :: "16 word"
  nfct :: "nf_conn option"

datatype byte_order = Little_Endian | Big_Endian

definition swab32 :: "32 word \<Rightarrow> 32 word" where
  "swab32 x = push_bit 24 (x AND 0x000000FF) OR push_bit 8 (x AND 0x0000FF00)
            OR drop_bit 8 (x AND 0x00FF0000) OR drop_bit 24 (x AND 0xFF000000)"

fun ntohl :: "byte_order \<Rightarrow> 32 word \<Rightarrow> 32 word" where
  "ntohl Little_Endian x = swab32 x"
| "ntohl Big_Endian x = x"

definition nf_ct_get :: "sk_buff \<Rightarrow> nf_conn option" where
  "nf_ct_get skb = nfct skb"

section \<open>The evaluator (xt\_expr.c)\<close>

text \<open>
  \<^verbatim>\<open>xt_expr_rvalue\<close> is the \<^verbatim>\<open>switch (reg)\<close> of the source, case by case.
\<close>

definition xt_expr_rvalue :: "byte_order \<Rightarrow> sk_buff \<Rightarrow> 32 word \<Rightarrow> uintxp_t" where
  "xt_expr_rvalue bo skb reg =
     (if reg = XTEXPR_TYPE_NFMARK then mark skb
      else if reg = XTEXPR_TYPE_CTMARK then
        (case nf_ct_get skb of Some ct \<Rightarrow> ct_mark ct | None \<Rightarrow> 0)
      else if reg = XTEXPR_TYPE_L3PROTO then ntohl bo (ucast (protocol skb))
      else 0)"

text \<open>
  The evaluator can stop without returning in two ways: an unsigned division or
  remainder by zero, which traps, and a read behind the last node of the block. The
  function has no error channel (it stores a \<^verbatim>\<open>uintxp_t\<close> and returns a pointer), so
  neither is a value it hands back: \<open>Inl\<close> stands for an execution that returned nothing
  to its caller.
\<close>

datatype crash = Divide_Trap | Read_Past_End

text \<open>
  The \<^verbatim>\<open>switch (mx->op & XTEXPR_OPMASK)\<close> of \<^verbatim>\<open>xt_expr_descend\<close>, in the order of its
  cases. Comparisons and the logical operators have type \<^verbatim>\<open>int\<close> with value 0 or 1 and are
  stored into a \<^verbatim>\<open>uintxp_t\<close>; all arithmetic is on \<^verbatim>\<open>uint32_t\<close>. The two shifts
  store a value and go on like every other case; the value is the shift of the 32-bit
  operand by the count, which for a count of 32 or more (where C does not fix the
  value) leaves no bit of the operand.
\<close>

definition xt_expr_switch :: "8 word \<Rightarrow> uintxp_t \<Rightarrow> uintxp_t \<Rightarrow> crash + uintxp_t" where
  "xt_expr_switch opc l r =
     (if opc = XTEXPR_OP_NONE then Inr l
      else if opc = XTEXPR_OP_ADD then Inr (l + r)
      else if opc = XTEXPR_OP_SUB then Inr (l - r)
      else if opc = XTEXPR_OP_MUL then Inr (l * r)
      else if opc = XTEXPR_OP_DIV then (if r = 0 then Inl Divide_Trap else Inr (l div r))
      else if opc = XTEXPR_OP_MOD then (if r = 0 then Inl Divide_Trap else Inr (l mod r))
      else if opc = XTEXPR_OP_NEG then Inr (- l)
      else if opc = XTEXPR_OP_LT then Inr (of_bool (l < r))
      else if opc = XTEXPR_OP_LE then Inr (of_bool (l \<le> r))
      else if opc = XTEXPR_OP_EQ then Inr (of_bool (l = r))
      else if opc = XTEXPR_OP_NE then Inr (of_bool (l \<noteq> r))
      else if opc = XTEXPR_OP_GT then Inr (of_bool (l > r))
      else if opc = XTEXPR_OP_GE then Inr (of_bool (l \<ge> r))
      else if opc = XTEXPR_OP_LNOT then Inr (of_bool (l = 0))
      else if opc = XTEXPR_OP_LAND then Inr (of_bool (l \<noteq> 0 \<and> r \<noteq> 0))
      else if opc = XTEXPR_OP_LOR then Inr (of_bool (l \<noteq> 0 \<or> r \<noteq> 0))
      else if opc = XTEXPR_OP_SHL then Inr (push_bit (unat r) l)
      else if opc = XTEXPR_OP_SHR then Inr (drop_bit (unat r) l)
      else if opc = XTEXPR_OP_NOT then Inr (NOT l)
      else if opc = XTEXPR_OP_AND then Inr (l AND r)
      else if opc = XTEXPR_OP_OR then Inr (l OR r)
      else if opc = XTEXPR_OP_XOR then Inr (l XOR r)
      else Inr 0)"

text \<open>
  \<^verbatim>\<open>xt_expr_descend\<close>. The block is the list of its nodes and the walking pointer
  \<^verbatim>\<open>mx\<close> is an index into it; dereferencing an index behind the last node is
  \<open>Read_Past_End\<close>. A successful call yields the value stored in \<^verbatim>\<open>*retp\<close>, the pointer
  it returns (\<^verbatim>\<open>next\<close>), and the registers it passed to \<^verbatim>\<open>xt_expr_rvalue\<close>, in call
  order (the reads of the packet context the call made).
\<close>

type_synonym descent = "uintxp_t \<times> nat \<times> uintxp_t list"

function xt_expr_descend ::
  "byte_order \<Rightarrow> sk_buff \<Rightarrow> xt_expr_micro list \<Rightarrow> nat \<Rightarrow> crash + descent" where
  "xt_expr_descend bo skb blk i =
     (if length blk \<le> i then Inl Read_Past_End
      else
        let mx = blk ! i; next = i + 1 in
        case (if op mx AND XTEXPR_LHIMM \<noteq> 0 then Inr (lh mx, next, [])
              else if lh mx = XTEXPR_TYPE_SUB then xt_expr_descend bo skb blk next
              else Inr (xt_expr_rvalue bo skb (rh mx), next, [rh mx])) of
          Inl e \<Rightarrow> Inl e
        | Inr (l, next1, t1) \<Rightarrow>
           (case (if op mx AND XTEXPR_RHIMM \<noteq> 0 then Inr (rh mx, next1, [])
                  else if rh mx = XTEXPR_TYPE_SUB then xt_expr_descend bo skb blk next1
                  else Inr (xt_expr_rvalue bo skb (rh mx), next1, [rh mx])) of
              Inl e \<Rightarrow> Inl e
            | Inr (r, next2, t2) \<Rightarrow>
               (case xt_expr_switch (op mx AND XTEXPR_OPMASK) l r of
                  Inl e \<Rightarrow> Inl e
                | Inr ret \<Rightarrow> Inr (ret, next2, t1 @ t2))))"
  by pat_completeness auto

text \<open>
  The second recursive call starts where the first one stopped, so termination needs
  that a call which returns has moved the pointer forward.
\<close>

lemma xt_expr_descend_advances:
  "xt_expr_descend_dom (bo, skb, blk, i) \<Longrightarrow>
   xt_expr_descend bo skb blk i = Inr (v, n, t) \<Longrightarrow> i < n"
proof (induction bo skb blk i arbitrary: v n t rule: xt_expr_descend.pinduct)
  case (1 bo skb blk i)
  show ?case
    using "1.prems" "1.IH"
    by (fastforce simp: xt_expr_descend.psimps[OF "1.hyps"] Let_def
           split: if_splits sum.splits prod.splits)
qed

termination xt_expr_descend
  apply (relation "measure (\<lambda>(bo, skb, blk, i). length blk - i)")
    apply (auto dest: xt_expr_descend_advances split: if_splits)
  done

declare xt_expr_descend.simps [simp del]

text \<open>
  The two operand resolutions of \<^verbatim>\<open>xt_expr_descend\<close> on their own: lines 117 to 122 for
  the left-hand side, which starts at the node after \<^verbatim>\<open>mx\<close>, and lines 124 to 129 for the
  right-hand side, which starts where the left-hand side stopped.
\<close>

definition lh_operand ::
  "byte_order \<Rightarrow> sk_buff \<Rightarrow> xt_expr_micro list \<Rightarrow> nat \<Rightarrow> crash + descent" where
  "lh_operand bo skb blk i =
     (let mx = blk ! i; next = i + 1 in
      if op mx AND XTEXPR_LHIMM \<noteq> 0 then Inr (lh mx, next, [])
      else if lh mx = XTEXPR_TYPE_SUB then xt_expr_descend bo skb blk next
      else Inr (xt_expr_rvalue bo skb (rh mx), next, [rh mx]))"

definition rh_operand ::
  "byte_order \<Rightarrow> sk_buff \<Rightarrow> xt_expr_micro list \<Rightarrow> nat \<Rightarrow> nat \<Rightarrow> crash + descent" where
  "rh_operand bo skb blk i next =
     (let mx = blk ! i in
      if op mx AND XTEXPR_RHIMM \<noteq> 0 then Inr (rh mx, next, [])
      else if rh mx = XTEXPR_TYPE_SUB then xt_expr_descend bo skb blk next
      else Inr (xt_expr_rvalue bo skb (rh mx), next, [rh mx]))"

section \<open>Well-formed blocks\<close>

text \<open>
  Modelled from the spec: the dry-run preorder walk of block validation, which the
  repository does not implement (\<^verbatim>\<open>xt_expr_mtcheck\<close> only copies the block). The walk
  applies the operand resolution rule to each slot without computing values and yields
  the index behind the subtree, or nothing when it would step behind the last node. A
  block is well-formed iff the walk from index 0 ends exactly at the block's length.
\<close>

function walk :: "xt_expr_micro list \<Rightarrow> nat \<Rightarrow> nat option" where
  "walk blk i =
     (if length blk \<le> i then None
      else
        let mx = blk ! i in
        case (if op mx AND XTEXPR_LHIMM \<noteq> 0 then Some (i + 1)
              else if lh mx = XTEXPR_TYPE_SUB then walk blk (i + 1)
              else Some (i + 1)) of
          None \<Rightarrow> None
        | Some c \<Rightarrow>
           (if op mx AND XTEXPR_RHIMM \<noteq> 0 then Some c
            else if rh mx = XTEXPR_TYPE_SUB then walk blk c
            else Some c))"
  by pat_completeness auto

lemma walk_advances: "walk_dom (blk, i) \<Longrightarrow> walk blk i = Some c \<Longrightarrow> i < c"
proof (induction blk i arbitrary: c rule: walk.pinduct)
  case (1 blk i)
  show ?case
    using "1.prems" "1.IH"
    by (fastforce simp: walk.psimps[OF "1.hyps"] Let_def split: if_splits option.splits)
qed

termination walk
  apply (relation "measure (\<lambda>(blk, i). length blk - i)")
    apply (auto dest: walk_advances split: if_splits)
  done

declare walk.simps [simp del]

definition well_formed :: "xt_expr_micro list \<Rightarrow> bool" where
  "well_formed blk \<longleftrightarrow> walk blk 0 = Some (length blk)"

section \<open>Basic facts\<close>

lemma xt_expr_descend_node:
  "i < length blk \<Longrightarrow>
   xt_expr_descend bo skb blk i =
     (case lh_operand bo skb blk i of
        Inl e \<Rightarrow> Inl e
      | Inr (l, next1, t1) \<Rightarrow>
         (case rh_operand bo skb blk i next1 of
            Inl e \<Rightarrow> Inl e
          | Inr (r, next2, t2) \<Rightarrow>
             (case xt_expr_switch (op (blk ! i) AND XTEXPR_OPMASK) l r of
                Inl e \<Rightarrow> Inl e
              | Inr ret \<Rightarrow> Inr (ret, next2, t1 @ t2))))"
  unfolding lh_operand_def rh_operand_def Let_def
  by (subst xt_expr_descend.simps) (simp add: Let_def)

lemma xt_expr_descend_past_end:
  "length blk \<le> i \<Longrightarrow> xt_expr_descend bo skb blk i = Inl Read_Past_End"
  by (subst xt_expr_descend.simps) simp

lemmas opcode_defs =
  XTEXPR_OP_NONE_def XTEXPR_OP_ADD_def XTEXPR_OP_SUB_def XTEXPR_OP_MUL_def
  XTEXPR_OP_DIV_def XTEXPR_OP_MOD_def XTEXPR_OP_NEG_def XTEXPR_OP_LT_def
  XTEXPR_OP_LE_def XTEXPR_OP_EQ_def XTEXPR_OP_NE_def XTEXPR_OP_GT_def
  XTEXPR_OP_GE_def XTEXPR_OP_LNOT_def XTEXPR_OP_LAND_def XTEXPR_OP_LOR_def
  XTEXPR_OP_SHL_def XTEXPR_OP_SHR_def XTEXPR_OP_NOT_def XTEXPR_OP_AND_def
  XTEXPR_OP_OR_def XTEXPR_OP_XOR_def XTEXPR_OP_ASG_def XTEXPR_OP_OFS_def
  XTEXPR_OP_DEREF_def XTEXPR_OP_IF_def XTEXPR_OP_CASE_def
  XTEXPR_OPMASK_def XTEXPR_LHIMM_def XTEXPR_RHIMM_def

lemmas type_defs =
  XTEXPR_TYPE_NONE_def XTEXPR_TYPE_SUB_def XTEXPR_TYPE_THIS_def
  XTEXPR_TYPE_NFMARK_def XTEXPR_TYPE_CTMARK_def XTEXPR_TYPE_SECMARK_def
  XTEXPR_TYPE_L2PROTO_def XTEXPR_TYPE_L3PROTO_def XTEXPR_TYPE_L4PROTO_def
  XTEXPR_TYPE_L4OFFSET_def

text \<open>With \<^verbatim>\<open>XTEXPR_OPMASK = 0xFF\<close> the mask keeps all eight bits of \<^verbatim>\<open>op\<close>, flags included.\<close>

lemma opmask_keeps_flags: "opc AND XTEXPR_OPMASK = opc"
proof -
  have full: "(0xFF :: 8 word) = - 1" by simp
  show ?thesis unfolding XTEXPR_OPMASK_def by (subst full) simp
qed

text \<open>
  So a node with an immediate flag set never selects a case of the switch: whatever its
  operator and operands, the default case stores 0.
\<close>

lemma immediate_flag_selects_default:
  "opc AND XTEXPR_LHIMM \<noteq> 0 \<or> opc AND XTEXPR_RHIMM \<noteq> 0 \<Longrightarrow>
   xt_expr_switch (opc AND XTEXPR_OPMASK) l r = Inr 0"
  unfolding opmask_keeps_flags
  by (auto simp: xt_expr_switch_def opcode_defs)

lemma xt_expr_switch_defined: "xt_expr_switch opc l r \<noteq> Inl Read_Past_End"
  by (simp add: xt_expr_switch_def)

lemma walk_node:
  "i < length blk \<Longrightarrow>
   walk blk i =
     (case (if op (blk ! i) AND XTEXPR_LHIMM = 0 \<and> lh (blk ! i) = XTEXPR_TYPE_SUB
            then walk blk (i + 1) else Some (i + 1)) of
        None \<Rightarrow> None
      | Some c \<Rightarrow>
         (if op (blk ! i) AND XTEXPR_RHIMM = 0 \<and> rh (blk ! i) = XTEXPR_TYPE_SUB
          then walk blk c else Some c))"
  by (subst walk.simps) (auto simp: Let_def split: option.splits)

lemma walk_past_end: "length blk \<le> i \<Longrightarrow> walk blk i = None"
  by (subst walk.simps) simp

lemma walk_in_range: "walk blk i = Some c \<Longrightarrow> i < length blk"
  by (subst (asm) walk.simps) (simp split: if_splits)

text \<open>
  Where the walk reaches \<open>c\<close>, evaluation from the same index either returns the cursor
  \<open>c\<close> or stops in a division by zero; it does not read behind the block.
\<close>

lemma descend_follows_walk:
  "walk blk i = Some c \<Longrightarrow>
   (case xt_expr_descend bo skb blk i of
      Inl e \<Rightarrow> e \<noteq> Read_Past_End
    | Inr (v, n, t) \<Rightarrow> n = c)"
proof (induction blk i arbitrary: c rule: walk.induct)
  case (1 blk i)
  from "1.prems" have inr: "i < length blk" by (rule walk_in_range)
  define mx where "mx = blk ! i"
  define subl where "subl \<longleftrightarrow> op mx AND XTEXPR_LHIMM = 0 \<and> lh mx = XTEXPR_TYPE_SUB"
  define subr where "subr \<longleftrightarrow> op mx AND XTEXPR_RHIMM = 0 \<and> rh mx = XTEXPR_TYPE_SUB"
  obtain c1 where c1: "(if subl then walk blk (i + 1) else Some (i + 1)) = Some c1"
    and c: "(if subr then walk blk c1 else Some c1) = Some c"
    using "1.prems" inr by (auto simp: walk_node subl_def subr_def mx_def split: option.splits)
  have L: "case lh_operand bo skb blk i of
             Inl e \<Rightarrow> e \<noteq> Read_Past_End | Inr (v, n, t) \<Rightarrow> n = c1"
  proof (cases subl)
    case True
    with c1 have "walk blk (i + 1) = Some c1" by simp
    with "1.IH"(1)[of mx "c1"] inr True show ?thesis
      by (simp add: lh_operand_def subl_def mx_def Let_def)
  next
    case False
    with c1 show ?thesis by (auto simp: lh_operand_def subl_def mx_def Let_def)
  qed
  show ?case
  proof (cases "lh_operand bo skb blk i")
    case (Inl e)
    with L inr show ?thesis by (simp add: xt_expr_descend_node)
  next
    case (Inr d)
    then obtain l t1 where lh: "lh_operand bo skb blk i = Inr (l, c1, t1)"
      using L by (cases d) auto
    have R: "case rh_operand bo skb blk i c1 of
               Inl e \<Rightarrow> e \<noteq> Read_Past_End | Inr (v, n, t) \<Rightarrow> n = c"
    proof (cases subr)
      case True
      with c have "walk blk c1 = Some c" by simp
      moreover have "(if op mx AND XTEXPR_LHIMM \<noteq> 0 then Some (i + 1)
              else if lh mx = XTEXPR_TYPE_SUB then walk blk (i + 1)
              else Some (i + 1)) = Some c1"
        using c1 by (auto simp: subl_def)
      ultimately show ?thesis
        using "1.IH"(2)[of mx c1 c] inr True
        by (simp add: rh_operand_def subr_def mx_def Let_def)
    next
      case False
      with c show ?thesis by (auto simp: rh_operand_def subr_def mx_def Let_def)
    qed
    show ?thesis
    proof (cases "rh_operand bo skb blk i c1")
      case (Inl e)
      with R lh inr show ?thesis by (simp add: xt_expr_descend_node)
    next
      case (Inr d2)
      then obtain r t2 where rh: "rh_operand bo skb blk i c1 = Inr (r, c, t2)"
        using R by (cases d2) auto
      show ?thesis
        using lh rh inr xt_expr_switch_defined[of "op (blk ! i) AND XTEXPR_OPMASK" l r]
        by (auto simp: xt_expr_descend_node split: sum.splits)
    qed
  qed
qed

text \<open>A crash while resolving an operand is the crash of the node: nothing catches it.\<close>

lemma lh_crash_propagates:
  "i < length blk \<Longrightarrow> lh_operand bo skb blk i = Inl e \<Longrightarrow>
   xt_expr_descend bo skb blk i = Inl e"
  by (simp add: xt_expr_descend_node)

lemma rh_crash_propagates:
  "i < length blk \<Longrightarrow> lh_operand bo skb blk i = Inr (l, n1, t1) \<Longrightarrow>
   rh_operand bo skb blk i n1 = Inl e \<Longrightarrow> xt_expr_descend bo skb blk i = Inl e"
  by (simp add: xt_expr_descend_node)

lemma xt_expr_descend_resolved:
  "i < length blk \<Longrightarrow> lh_operand bo skb blk i = Inr (l, n1, t1) \<Longrightarrow>
   rh_operand bo skb blk i n1 = Inr (r, n2, t2) \<Longrightarrow>
   xt_expr_descend bo skb blk i =
     (case xt_expr_switch (op (blk ! i) AND XTEXPR_OPMASK) l r of
        Inl e \<Rightarrow> Inl e
      | Inr ret \<Rightarrow> Inr (ret, n2, t1 @ t2))"
  by (simp add: xt_expr_descend_node)

text \<open>The cases of the switch that the claims below are about, one by one.\<close>

lemma switch_NONE: "xt_expr_switch XTEXPR_OP_NONE l r = Inr l"
  by (simp add: xt_expr_switch_def opcode_defs)
lemma switch_LNOT: "xt_expr_switch XTEXPR_OP_LNOT l r = Inr (of_bool (l = 0))"
  by (simp add: xt_expr_switch_def opcode_defs)
lemma switch_NOT: "xt_expr_switch XTEXPR_OP_NOT l r = Inr (NOT l)"
  by (simp add: xt_expr_switch_def opcode_defs)
lemma switch_LAND: "xt_expr_switch XTEXPR_OP_LAND l r = Inr (of_bool (l \<noteq> 0 \<and> r \<noteq> 0))"
  by (simp add: xt_expr_switch_def opcode_defs)
lemma switch_LOR: "xt_expr_switch XTEXPR_OP_LOR l r = Inr (of_bool (l \<noteq> 0 \<or> r \<noteq> 0))"
  by (simp add: xt_expr_switch_def opcode_defs)
lemma switch_DIV:
  "xt_expr_switch XTEXPR_OP_DIV l r = (if r = 0 then Inl Divide_Trap else Inr (l div r))"
  by (simp add: xt_expr_switch_def opcode_defs)
lemma switch_MOD:
  "xt_expr_switch XTEXPR_OP_MOD l r = (if r = 0 then Inl Divide_Trap else Inr (l mod r))"
  by (simp add: xt_expr_switch_def opcode_defs)

lemma switch_ADD: "xt_expr_switch XTEXPR_OP_ADD l r = Inr (l + r)"
  by (simp add: xt_expr_switch_def opcode_defs)
lemma switch_SUB: "xt_expr_switch XTEXPR_OP_SUB l r = Inr (l - r)"
  by (simp add: xt_expr_switch_def opcode_defs)
lemma switch_MUL: "xt_expr_switch XTEXPR_OP_MUL l r = Inr (l * r)"
  by (simp add: xt_expr_switch_def opcode_defs)
lemma switch_NEG: "xt_expr_switch XTEXPR_OP_NEG l r = Inr (- l)"
  by (simp add: xt_expr_switch_def opcode_defs)

lemma arithmetic_opcodes_distinct:
  "XTEXPR_OP_ADD \<noteq> XTEXPR_OP_SUB" "XTEXPR_OP_ADD \<noteq> XTEXPR_OP_MUL"
  "XTEXPR_OP_ADD \<noteq> XTEXPR_OP_NEG" "XTEXPR_OP_SUB \<noteq> XTEXPR_OP_MUL"
  "XTEXPR_OP_SUB \<noteq> XTEXPR_OP_NEG" "XTEXPR_OP_MUL \<noteq> XTEXPR_OP_NEG"
  by (simp_all add: opcode_defs)

lemmas eval_defs =
  xt_expr_descend_node xt_expr_descend_past_end lh_operand_def rh_operand_def
  xt_expr_switch_def xt_expr_rvalue_def nf_ct_get_def opcode_defs type_defs Let_def

text \<open>Only the DIV and MOD cases of the switch can stop the evaluation.\<close>

lemma xt_expr_switch_crash:
  "xt_expr_switch opc l r = Inl e \<Longrightarrow> opc = XTEXPR_OP_DIV \<or> opc = XTEXPR_OP_MOD"
  by (simp add: xt_expr_switch_def split: if_splits)

lemma divide_trap_needs_division:
  "xt_expr_descend bo skb blk i = Inl Divide_Trap \<Longrightarrow>
   \<exists>mx \<in> set blk. op mx AND XTEXPR_OPMASK \<in> {XTEXPR_OP_DIV, XTEXPR_OP_MOD}"
proof (induction bo skb blk i rule: xt_expr_descend.induct)
  case (1 bo skb blk i)
  have inr: "i < length blk"
  proof (rule ccontr)
    assume "\<not> i < length blk"
    then have "xt_expr_descend bo skb blk i = Inl Read_Past_End"
      by (simp add: xt_expr_descend_past_end)
    with "1.prems" show False by simp
  qed
  define mx where "mx = blk ! i"
  show ?case
  proof (cases "lh_operand bo skb blk i")
    case (Inl e)
    with "1.prems" inr have e: "e = Divide_Trap" by (simp add: xt_expr_descend_node)
    from Inl have sub: "op mx AND XTEXPR_LHIMM = 0" "lh mx = XTEXPR_TYPE_SUB"
      and call: "xt_expr_descend bo skb blk (i + 1) = Inl e"
      by (auto simp: lh_operand_def mx_def Let_def split: if_splits)
    from "1.IH"(1)[of mx "i + 1"] inr sub call e show ?thesis
      by (simp add: mx_def)
  next
    case (Inr d)
    obtain l n1 t1 where d: "d = (l, n1, t1)" by (cases d)
    with Inr have lh: "lh_operand bo skb blk i = Inr (l, n1, t1)" by simp
    show ?thesis
    proof (cases "rh_operand bo skb blk i n1")
      case (Inl e)
      with "1.prems" inr lh have e: "e = Divide_Trap" by (simp add: xt_expr_descend_node)
      from Inl have sub: "op mx AND XTEXPR_RHIMM = 0" "rh mx = XTEXPR_TYPE_SUB"
        and call: "xt_expr_descend bo skb blk n1 = Inl e"
        by (auto simp: rh_operand_def mx_def Let_def split: if_splits)
      have first: "(if op mx AND XTEXPR_LHIMM \<noteq> 0 then Inr (lh mx, i + 1, [])
              else if lh mx = XTEXPR_TYPE_SUB then xt_expr_descend bo skb blk (i + 1)
              else Inr (xt_expr_rvalue bo skb (rh mx), i + 1, [rh mx])) = Inr (l, n1, t1)"
        using lh unfolding lh_operand_def mx_def Let_def .
      from "1.IH"(2)[of mx "i + 1" "(l, n1, t1)" l "(n1, t1)" n1 t1] inr first sub call e
      show ?thesis by (simp add: mx_def)
    next
      case (Inr d2)
      obtain r n2 t2 where "d2 = (r, n2, t2)" by (cases d2)
      with Inr have rh: "rh_operand bo skb blk i n1 = Inr (r, n2, t2)" by simp
      from "1.prems" have "xt_expr_switch (op (blk ! i) AND XTEXPR_OPMASK) l r = Inl Divide_Trap"
        by (simp add: xt_expr_descend_resolved[OF inr lh rh] split: sum.splits)
      then have "op (blk ! i) AND XTEXPR_OPMASK \<in> {XTEXPR_OP_DIV, XTEXPR_OP_MOD}"
        by (auto dest: xt_expr_switch_crash)
      with inr show ?thesis
        using nth_mem[of i blk] by blast
    qed
  qed
qed

section \<open>The context resolver\<close>

text \<open>
  C10. Every register other than the packet mark, the connection mark and the layer-3
  protocol falls into the default case of \<^verbatim>\<open>xt_expr_rvalue\<close> and reads as 0, the
  declared but unimplemented THIS, SECMARK, L2PROTO, L4PROTO and L4OFFSET among them;
  hence a nonzero variable value can only come from one of the three.
\<close>

theorem xt_expr_rvalue_default_zero:
  "(reg \<notin> {XTEXPR_TYPE_NFMARK, XTEXPR_TYPE_CTMARK, XTEXPR_TYPE_L3PROTO}
      \<longrightarrow> xt_expr_rvalue bo skb reg = 0)
   \<and> xt_expr_rvalue bo skb XTEXPR_TYPE_THIS = 0
   \<and> xt_expr_rvalue bo skb XTEXPR_TYPE_SECMARK = 0
   \<and> xt_expr_rvalue bo skb XTEXPR_TYPE_L2PROTO = 0
   \<and> xt_expr_rvalue bo skb XTEXPR_TYPE_L4PROTO = 0
   \<and> xt_expr_rvalue bo skb XTEXPR_TYPE_L4OFFSET = 0
   \<and> (xt_expr_rvalue bo skb reg \<noteq> 0
      \<longrightarrow> reg \<in> {XTEXPR_TYPE_NFMARK, XTEXPR_TYPE_CTMARK, XTEXPR_TYPE_L3PROTO})"
  by (simp add: xt_expr_rvalue_def type_defs)

theorem xt_expr_rvalue_default_zero_witness:
  "(11 :: 32 word) \<notin> {XTEXPR_TYPE_NFMARK, XTEXPR_TYPE_CTMARK, XTEXPR_TYPE_L3PROTO}
   \<and> xt_expr_rvalue Little_Endian \<lparr>mark = 5, protocol = 8, nfct = Some \<lparr>ct_mark = 7\<rparr>\<rparr> 11 = 0
   \<and> xt_expr_rvalue Little_Endian \<lparr>mark = 5, protocol = 8, nfct = Some \<lparr>ct_mark = 7\<rparr>\<rparr>
        XTEXPR_TYPE_NFMARK \<noteq> 0
   \<and> XTEXPR_TYPE_NFMARK \<in> {XTEXPR_TYPE_NFMARK, XTEXPR_TYPE_CTMARK, XTEXPR_TYPE_L3PROTO}"
  using xt_expr_rvalue_default_zero
          [of 11 Little_Endian "\<lparr>mark = 5, protocol = 8, nfct = Some \<lparr>ct_mark = 7\<rparr>\<rparr>"]
        xt_expr_rvalue_default_zero
          [of XTEXPR_TYPE_NFMARK Little_Endian
              "\<lparr>mark = 5, protocol = 8, nfct = Some \<lparr>ct_mark = 7\<rparr>\<rparr>"]
  by (simp add: xt_expr_rvalue_def type_defs)

section \<open>Operators\<close>

text \<open>
  C3. The header comment of xt\_expr.c encodes "4+2" as
  \<^verbatim>\<open>{XTEXPR_OP_ADD | XTEXPR_LHIMM | XTEXPR_RHIMM, 4, 2}\<close>, and the claim has this node
  evaluate to 6. The evaluator stores 0: the flag bits 6 and 7 lie inside
  \<^verbatim>\<open>XTEXPR_OPMASK = 0xFF\<close>, the switch sees 0xC1 instead of \<^verbatim>\<open>XTEXPR_OP_ADD\<close>, and the
  default case is taken.
\<close>

theorem immediate_add_evaluates_to_zero:
  "xt_expr_descend bo skb
     [\<lparr>op = XTEXPR_OP_ADD OR XTEXPR_LHIMM OR XTEXPR_RHIMM, lh = 4, rh = 2\<rparr>] 0
   = Inr (0, 1, [])"
  by (simp add: eval_defs)

text \<open>
  C2. The header comment's block for (1+2)+(3+4). The cursor runs left to right over all
  three nodes and ends at 3, but both immediate subexpressions evaluate to 0 (the same
  mask defect as in C3), so the sum is 0 where the claim has 10.
\<close>

theorem nested_sum_evaluates_to_zero:
  "xt_expr_descend bo skb
     [\<lparr>op = XTEXPR_OP_ADD, lh = XTEXPR_TYPE_SUB, rh = XTEXPR_TYPE_SUB\<rparr>,
      \<lparr>op = XTEXPR_OP_ADD OR XTEXPR_LHIMM OR XTEXPR_RHIMM, lh = 1, rh = 2\<rparr>,
      \<lparr>op = XTEXPR_OP_ADD OR XTEXPR_LHIMM OR XTEXPR_RHIMM, lh = 3, rh = 4\<rparr>] 0
   = Inr (0, 3, [])"
  by (simp add: eval_defs)

text \<open>
  C1. For a variable on the left-hand side the evaluator passes \<^verbatim>\<open>mx->rh\<close>, not
  \<^verbatim>\<open>mx->lh\<close>, to \<^verbatim>\<open>xt_expr_rvalue\<close> (line 122). With a packet mark of 5, the node
  \<^verbatim>\<open>{XTEXPR_OP_NONE, XTEXPR_TYPE_NFMARK, XTEXPR_TYPE_NONE}\<close> should yield the mark; the
  evaluator asks the resolver for register 0 twice and yields 0. The claim's example,
  the mark plus an immediate 1, yields 0 as well, where the claim has 6: the left-hand
  side reads register 1 (the right slot), and the flag bit hides the operator.
\<close>

theorem lh_variable_resolves_rh_slot:
  "xt_expr_rvalue bo \<lparr>mark = 5, protocol = 0, nfct = None\<rparr> XTEXPR_TYPE_NFMARK = 5
   \<and> xt_expr_descend bo \<lparr>mark = 5, protocol = 0, nfct = None\<rparr>
        [\<lparr>op = XTEXPR_OP_NONE, lh = XTEXPR_TYPE_NFMARK, rh = XTEXPR_TYPE_NONE\<rparr>] 0
      = Inr (0, 1, [XTEXPR_TYPE_NONE, XTEXPR_TYPE_NONE])
   \<and> xt_expr_descend bo \<lparr>mark = 5, protocol = 0, nfct = None\<rparr>
        [\<lparr>op = XTEXPR_OP_ADD OR XTEXPR_RHIMM, lh = XTEXPR_TYPE_NFMARK, rh = 1\<rparr>] 0
      = Inr (0, 1, [1])"
  by (simp add: eval_defs)

text \<open>
  C9. A node whose masked opcode is greater than \<^verbatim>\<open>XTEXPR_OP_XOR\<close>, the last operator the
  switch has a case for, still has both operands resolved, in order, and then yields 0:
  the result is that of the two operand resolutions with the value replaced by 0.
\<close>

theorem unknown_opcode_yields_zero:
  assumes "i < length blk"
    and "XTEXPR_OP_XOR < op (blk ! i) AND XTEXPR_OPMASK"
  shows "xt_expr_descend bo skb blk i =
     (case lh_operand bo skb blk i of
        Inl e \<Rightarrow> Inl e
      | Inr (l, next1, t1) \<Rightarrow>
         (case rh_operand bo skb blk i next1 of
            Inl e \<Rightarrow> Inl e
          | Inr (r, next2, t2) \<Rightarrow> Inr (0, next2, t1 @ t2)))"
proof -
  have "xt_expr_switch (op (blk ! i) AND XTEXPR_OPMASK) l r = Inr 0" for l r
    using assms(2) by (auto simp: xt_expr_switch_def opcode_defs)
  then show ?thesis
    using assms(1) by (simp add: xt_expr_descend_node split: sum.splits prod.splits)
qed

theorem unknown_opcode_yields_zero_witness:
  "0 < length [\<lparr>op = XTEXPR_OP_IF, lh = XTEXPR_TYPE_NFMARK, rh = XTEXPR_TYPE_NFMARK\<rparr>]
   \<and> XTEXPR_OP_XOR <
       op ([\<lparr>op = XTEXPR_OP_IF, lh = XTEXPR_TYPE_NFMARK, rh = XTEXPR_TYPE_NFMARK\<rparr>] ! 0)
         AND XTEXPR_OPMASK
   \<and> xt_expr_descend Little_Endian \<lparr>mark = 5, protocol = 0, nfct = None\<rparr>
        [\<lparr>op = XTEXPR_OP_IF, lh = XTEXPR_TYPE_NFMARK, rh = XTEXPR_TYPE_NFMARK\<rparr>] 0
      = Inr (0, 1, [XTEXPR_TYPE_NFMARK, XTEXPR_TYPE_NFMARK])"
  using unknown_opcode_yields_zero
          [of 0 "[\<lparr>op = XTEXPR_OP_IF, lh = XTEXPR_TYPE_NFMARK, rh = XTEXPR_TYPE_NFMARK\<rparr>]"
              Little_Endian "\<lparr>mark = 5, protocol = 0, nfct = None\<rparr>"]
  by (simp add: lh_operand_def rh_operand_def opcode_defs type_defs)

text \<open>
  C7. Arithmetic is that of \<^verbatim>\<open>uint32_t\<close>: whatever values the two operands resolve to,
  a node whose switch selects ADD, SUB, MUL or NEG returns the integer result reduced
  modulo \<open>2 ^ 32\<close>. The witness is the claim's example, 0 - 1.
\<close>

theorem arithmetic_wraps_around:
  assumes "i < length blk"
    and "opc = op (blk ! i) AND XTEXPR_OPMASK"
    and "opc \<in> {XTEXPR_OP_ADD, XTEXPR_OP_SUB, XTEXPR_OP_MUL, XTEXPR_OP_NEG}"
    and "lh_operand bo skb blk i = Inr (l, n1, t1)"
    and "rh_operand bo skb blk i n1 = Inr (r, n2, t2)"
  shows "\<exists>v. xt_expr_descend bo skb blk i = Inr (v, n2, t1 @ t2)
     \<and> (opc = XTEXPR_OP_ADD \<longrightarrow> uint v = (uint l + uint r) mod 2 ^ 32)
     \<and> (opc = XTEXPR_OP_SUB \<longrightarrow> uint v = (uint l - uint r) mod 2 ^ 32)
     \<and> (opc = XTEXPR_OP_MUL \<longrightarrow> uint v = (uint l * uint r) mod 2 ^ 32)
     \<and> (opc = XTEXPR_OP_NEG \<longrightarrow> uint v = (- uint l) mod 2 ^ 32)"
proof -
  note node = xt_expr_descend_resolved[OF assms(1,4,5), folded assms(2)]
  note ne = arithmetic_opcodes_distinct arithmetic_opcodes_distinct[symmetric]
  from assms(3) consider
    (add) "opc = XTEXPR_OP_ADD" | (sub) "opc = XTEXPR_OP_SUB" |
    (mul) "opc = XTEXPR_OP_MUL" | (neg) "opc = XTEXPR_OP_NEG"
    by blast
  then show ?thesis
  proof cases
    case add
    have "xt_expr_descend bo skb blk i = Inr (l + r, n2, t1 @ t2)"
      unfolding node add by (simp add: switch_ADD)
    moreover have "uint (l + r) = (uint l + uint r) mod 2 ^ 32"
      by (simp add: uint_word_ariths)
    ultimately show ?thesis using add ne by simp
  next
    case sub
    have "xt_expr_descend bo skb blk i = Inr (l - r, n2, t1 @ t2)"
      unfolding node sub by (simp add: switch_SUB)
    moreover have "uint (l - r) = (uint l - uint r) mod 2 ^ 32"
      by (simp add: uint_word_ariths)
    ultimately show ?thesis using sub ne by simp
  next
    case mul
    have "xt_expr_descend bo skb blk i = Inr (l * r, n2, t1 @ t2)"
      unfolding node mul by (simp add: switch_MUL)
    moreover have "uint (l * r) = (uint l * uint r) mod 2 ^ 32"
      by (simp add: uint_word_ariths)
    ultimately show ?thesis using mul ne by simp
  next
    case neg
    have "xt_expr_descend bo skb blk i = Inr (- l, n2, t1 @ t2)"
      unfolding node neg by (simp add: switch_NEG)
    moreover have "uint (- l) = (- uint l) mod 2 ^ 32"
      by (simp add: uint_word_ariths)
    ultimately show ?thesis using neg ne by simp
  qed
qed


theorem arithmetic_wraps_around_witness:
  "\<exists>v. xt_expr_descend Little_Endian \<lparr>mark = 1, protocol = 0, nfct = None\<rparr>
     [\<lparr>op = XTEXPR_OP_SUB, lh = XTEXPR_TYPE_SUB, rh = XTEXPR_TYPE_NFMARK\<rparr>,
      \<lparr>op = XTEXPR_OP_NONE, lh = XTEXPR_TYPE_NONE, rh = XTEXPR_TYPE_NONE\<rparr>] 0
       = Inr (v, 2, [XTEXPR_TYPE_NONE, XTEXPR_TYPE_NONE, XTEXPR_TYPE_NFMARK])
     \<and> uint v = 2 ^ 32 - 1"
proof -
  let ?skb = "\<lparr>mark = 1, protocol = 0, nfct = None\<rparr>"
  let ?blk = "[\<lparr>op = XTEXPR_OP_SUB, lh = XTEXPR_TYPE_SUB, rh = XTEXPR_TYPE_NFMARK\<rparr>,
      \<lparr>op = XTEXPR_OP_NONE, lh = XTEXPR_TYPE_NONE, rh = XTEXPR_TYPE_NONE\<rparr>]"
  have 1: "0 < length ?blk" by simp
  have 2: "XTEXPR_OP_SUB = op (?blk ! 0) AND XTEXPR_OPMASK"
    by (simp add: opmask_keeps_flags)
  have 3: "XTEXPR_OP_SUB \<in> {XTEXPR_OP_ADD, XTEXPR_OP_SUB, XTEXPR_OP_MUL, XTEXPR_OP_NEG}"
    by simp
  have 4: "lh_operand Little_Endian ?skb ?blk 0 = Inr (0, 2, [XTEXPR_TYPE_NONE, XTEXPR_TYPE_NONE])"
    by (simp add: eval_defs)
  have 5: "rh_operand Little_Endian ?skb ?blk 0 2 = Inr (1, 2, [XTEXPR_TYPE_NFMARK])"
    by (simp add: eval_defs)
  from arithmetic_wraps_around[OF 1 2 3 4 5] show ?thesis
    by auto
qed


text \<open>
  C5. A node whose switch selects LAND or LOR resolves the left operand and then the
  right operand, whatever the left value is: the cursor it returns is the one after the
  right operand, its context reads are those of both operands, and a crash in either
  operand is the crash of the node. Only then is the truth value formed. In the
  witness the left subexpression alone decides the result (0 for LAND, nonzero for LOR)
  and the right subexpression is still evaluated: the cursor ends at 3 and the right
  subexpression's reads are in the trace.
\<close>

theorem logical_and_or_resolve_both_operands:
  assumes "i < length blk"
    and "op (blk ! i) AND XTEXPR_OPMASK \<in> {XTEXPR_OP_LAND, XTEXPR_OP_LOR}"
  shows "xt_expr_descend bo skb blk i =
     (case lh_operand bo skb blk i of
        Inl e \<Rightarrow> Inl e
      | Inr (l, next1, t1) \<Rightarrow>
         (case rh_operand bo skb blk i next1 of
            Inl e \<Rightarrow> Inl e
          | Inr (r, next2, t2) \<Rightarrow>
             Inr (if op (blk ! i) AND XTEXPR_OPMASK = XTEXPR_OP_LAND
                  then of_bool (l \<noteq> 0 \<and> r \<noteq> 0) else of_bool (l \<noteq> 0 \<or> r \<noteq> 0),
                  next2, t1 @ t2)))"
proof -
  have ne: "XTEXPR_OP_LOR \<noteq> XTEXPR_OP_LAND" by (simp add: opcode_defs)
  from assms(2) consider
    (land) "op (blk ! i) AND XTEXPR_OPMASK = XTEXPR_OP_LAND" |
    (lor) "op (blk ! i) AND XTEXPR_OPMASK = XTEXPR_OP_LOR"
    by blast
  then show ?thesis
  proof cases
    case land
    show ?thesis
      unfolding xt_expr_descend_node[OF assms(1)] land
      by (simp add: switch_LAND split: sum.splits prod.splits)
  next
    case lor
    show ?thesis
      unfolding xt_expr_descend_node[OF assms(1)] lor
      by (simp add: switch_LOR ne split: sum.splits prod.splits)
  qed
qed

theorem logical_and_or_resolve_both_operands_witness:
  "xt_expr_descend Little_Endian \<lparr>mark = 5, protocol = 0, nfct = None\<rparr>
     [\<lparr>op = XTEXPR_OP_LAND, lh = XTEXPR_TYPE_SUB, rh = XTEXPR_TYPE_SUB\<rparr>,
      \<lparr>op = XTEXPR_OP_NONE, lh = XTEXPR_TYPE_NONE, rh = XTEXPR_TYPE_NONE\<rparr>,
      \<lparr>op = XTEXPR_OP_NONE, lh = XTEXPR_TYPE_NONE, rh = XTEXPR_TYPE_NFMARK\<rparr>] 0
   = Inr (0, 3, [XTEXPR_TYPE_NONE, XTEXPR_TYPE_NONE, XTEXPR_TYPE_NFMARK, XTEXPR_TYPE_NFMARK])
   \<and> xt_expr_descend Little_Endian \<lparr>mark = 5, protocol = 0, nfct = None\<rparr>
     [\<lparr>op = XTEXPR_OP_LOR, lh = XTEXPR_TYPE_SUB, rh = XTEXPR_TYPE_SUB\<rparr>,
      \<lparr>op = XTEXPR_OP_NONE, lh = XTEXPR_TYPE_NONE, rh = XTEXPR_TYPE_NFMARK\<rparr>,
      \<lparr>op = XTEXPR_OP_NONE, lh = XTEXPR_TYPE_NONE, rh = XTEXPR_TYPE_CTMARK\<rparr>] 0
   = Inr (1, 3, [XTEXPR_TYPE_NFMARK, XTEXPR_TYPE_NFMARK, XTEXPR_TYPE_CTMARK, XTEXPR_TYPE_CTMARK])"
proof -
  let ?skb = "\<lparr>mark = 5, protocol = 0, nfct = None\<rparr>"
  let ?A = "[\<lparr>op = XTEXPR_OP_LAND, lh = XTEXPR_TYPE_SUB, rh = XTEXPR_TYPE_SUB\<rparr>,
      \<lparr>op = XTEXPR_OP_NONE, lh = XTEXPR_TYPE_NONE, rh = XTEXPR_TYPE_NONE\<rparr>,
      \<lparr>op = XTEXPR_OP_NONE, lh = XTEXPR_TYPE_NONE, rh = XTEXPR_TYPE_NFMARK\<rparr>]"
  let ?B = "[\<lparr>op = XTEXPR_OP_LOR, lh = XTEXPR_TYPE_SUB, rh = XTEXPR_TYPE_SUB\<rparr>,
      \<lparr>op = XTEXPR_OP_NONE, lh = XTEXPR_TYPE_NONE, rh = XTEXPR_TYPE_NFMARK\<rparr>,
      \<lparr>op = XTEXPR_OP_NONE, lh = XTEXPR_TYPE_NONE, rh = XTEXPR_TYPE_CTMARK\<rparr>]"
  have a1: "0 < length ?A" and b1: "0 < length ?B" by simp_all
  have a2: "op (?A ! 0) AND XTEXPR_OPMASK \<in> {XTEXPR_OP_LAND, XTEXPR_OP_LOR}"
    and b2: "op (?B ! 0) AND XTEXPR_OPMASK \<in> {XTEXPR_OP_LAND, XTEXPR_OP_LOR}"
    by (simp_all add: opmask_keeps_flags)
  have la: "lh_operand Little_Endian ?skb ?A 0 = Inr (0, 2, [XTEXPR_TYPE_NONE, XTEXPR_TYPE_NONE])"
    by (simp add: eval_defs)
  have ra: "rh_operand Little_Endian ?skb ?A 0 2
              = Inr (5, 3, [XTEXPR_TYPE_NFMARK, XTEXPR_TYPE_NFMARK])"
    by (simp add: eval_defs)
  have lb: "lh_operand Little_Endian ?skb ?B 0
              = Inr (5, 2, [XTEXPR_TYPE_NFMARK, XTEXPR_TYPE_NFMARK])"
    by (simp add: eval_defs)
  have rb: "rh_operand Little_Endian ?skb ?B 0 2
              = Inr (0, 3, [XTEXPR_TYPE_CTMARK, XTEXPR_TYPE_CTMARK])"
    by (simp add: eval_defs)
  have ne: "XTEXPR_OP_LOR \<noteq> XTEXPR_OP_LAND" by (simp add: opcode_defs)
  show ?thesis
    using logical_and_or_resolve_both_operands[OF a1 a2, of Little_Endian ?skb]
          logical_and_or_resolve_both_operands[OF b1 b2, of Little_Endian ?skb]
    by (simp add: la ra lb rb opmask_keeps_flags ne)
qed

text \<open>
  C8, as stated, fails. The right-hand slot of a unary node is not ignored: it is
  resolved like any other, so a subexpression sentinel there makes the evaluator descend
  into the next node. Below, two blocks differ only in the right-hand slot of their
  first node, a \<^verbatim>\<open>XTEXPR_OP_NONE\<close> node whose left operand resolves to 0 in both; with the
  sentinel the evaluation crashes inside the right subexpression, without it the node
  returns 0.
\<close>

theorem unary_rh_subexpression_counterexample:
  "xt_expr_descend Little_Endian \<lparr>mark = 5, protocol = 0, nfct = None\<rparr>
     [\<lparr>op = XTEXPR_OP_NONE, lh = XTEXPR_TYPE_NONE, rh = XTEXPR_TYPE_SUB\<rparr>,
      \<lparr>op = XTEXPR_OP_DIV, lh = XTEXPR_TYPE_NONE, rh = XTEXPR_TYPE_NONE\<rparr>] 0
   = Inl Divide_Trap
   \<and> xt_expr_descend Little_Endian \<lparr>mark = 5, protocol = 0, nfct = None\<rparr>
     [\<lparr>op = XTEXPR_OP_NONE, lh = XTEXPR_TYPE_NONE, rh = XTEXPR_TYPE_NONE\<rparr>,
      \<lparr>op = XTEXPR_OP_DIV, lh = XTEXPR_TYPE_NONE, rh = XTEXPR_TYPE_NONE\<rparr>] 0
   = Inr (0, 1, [XTEXPR_TYPE_NONE, XTEXPR_TYPE_NONE])
   \<and> lh_operand Little_Endian \<lparr>mark = 5, protocol = 0, nfct = None\<rparr>
     [\<lparr>op = XTEXPR_OP_NONE, lh = XTEXPR_TYPE_NONE, rh = XTEXPR_TYPE_SUB\<rparr>,
      \<lparr>op = XTEXPR_OP_DIV, lh = XTEXPR_TYPE_NONE, rh = XTEXPR_TYPE_NONE\<rparr>] 0
   = Inr (0, 1, [XTEXPR_TYPE_SUB])
   \<and> lh_operand Little_Endian \<lparr>mark = 5, protocol = 0, nfct = None\<rparr>
     [\<lparr>op = XTEXPR_OP_NONE, lh = XTEXPR_TYPE_NONE, rh = XTEXPR_TYPE_NONE\<rparr>,
      \<lparr>op = XTEXPR_OP_DIV, lh = XTEXPR_TYPE_NONE, rh = XTEXPR_TYPE_NONE\<rparr>] 0
   = Inr (0, 1, [XTEXPR_TYPE_NONE])"
  by (simp add: eval_defs)

text \<open>
  C8, amended. For a node whose switch selects NONE, NEG, LNOT or NOT the right operand
  is still resolved (its nodes are consumed, its reads happen, its crash is the node's
  crash), but its value does not enter the result: whenever both operands resolve, the
  node returns the operator applied to the left value alone, with the cursor and the
  reads of both resolutions.
\<close>

theorem unary_operator_ignores_rh_value:
  assumes "i < length blk"
    and "opc = op (blk ! i) AND XTEXPR_OPMASK"
    and "opc \<in> {XTEXPR_OP_NONE, XTEXPR_OP_NEG, XTEXPR_OP_LNOT, XTEXPR_OP_NOT}"
    and "lh_operand bo skb blk i = Inr (l, n1, t1)"
    and "rh_operand bo skb blk i n1 = Inr (r, n2, t2)"
  shows "\<exists>v. xt_expr_descend bo skb blk i = Inr (v, n2, t1 @ t2)
     \<and> (opc = XTEXPR_OP_NONE \<longrightarrow> v = l)
     \<and> (opc = XTEXPR_OP_NEG \<longrightarrow> v = - l)
     \<and> (opc = XTEXPR_OP_LNOT \<longrightarrow> v = of_bool (l = 0))
     \<and> (opc = XTEXPR_OP_NOT \<longrightarrow> v = NOT l)"
proof -
  note node = xt_expr_descend_resolved[OF assms(1,4,5), folded assms(2)]
  have ne: "XTEXPR_OP_NONE \<noteq> XTEXPR_OP_NEG" "XTEXPR_OP_NONE \<noteq> XTEXPR_OP_LNOT"
    "XTEXPR_OP_NONE \<noteq> XTEXPR_OP_NOT" "XTEXPR_OP_NEG \<noteq> XTEXPR_OP_LNOT"
    "XTEXPR_OP_NEG \<noteq> XTEXPR_OP_NOT" "XTEXPR_OP_LNOT \<noteq> XTEXPR_OP_NOT"
    by (simp_all add: opcode_defs)
  note ne' = ne ne[symmetric]
  from assms(3) consider
    (none) "opc = XTEXPR_OP_NONE" | (neg) "opc = XTEXPR_OP_NEG" |
    (lnot) "opc = XTEXPR_OP_LNOT" | (not) "opc = XTEXPR_OP_NOT"
    by blast
  then show ?thesis
  proof cases
    case none
    have "xt_expr_descend bo skb blk i = Inr (l, n2, t1 @ t2)"
      unfolding node none by (simp add: switch_NONE)
    then show ?thesis using none ne' by simp
  next
    case neg
    have "xt_expr_descend bo skb blk i = Inr (- l, n2, t1 @ t2)"
      unfolding node neg by (simp add: switch_NEG)
    then show ?thesis using neg ne' by simp
  next
    case lnot
    have "xt_expr_descend bo skb blk i = Inr (of_bool (l = 0), n2, t1 @ t2)"
      unfolding node lnot by (simp add: switch_LNOT)
    then show ?thesis using lnot ne' by simp
  next
    case not
    have "xt_expr_descend bo skb blk i = Inr (NOT l, n2, t1 @ t2)"
      unfolding node not by (simp add: switch_NOT)
    then show ?thesis using not ne' by simp
  qed
qed


theorem unary_operator_ignores_rh_value_witness:
  "xt_expr_descend Little_Endian \<lparr>mark = 5, protocol = 0, nfct = Some \<lparr>ct_mark = 7\<rparr>\<rparr>
     [\<lparr>op = XTEXPR_OP_NEG, lh = XTEXPR_TYPE_SUB, rh = XTEXPR_TYPE_SUB\<rparr>,
      \<lparr>op = XTEXPR_OP_NONE, lh = XTEXPR_TYPE_NONE, rh = XTEXPR_TYPE_NFMARK\<rparr>,
      \<lparr>op = XTEXPR_OP_NONE, lh = XTEXPR_TYPE_NONE, rh = XTEXPR_TYPE_CTMARK\<rparr>] 0
   = Inr (- 5, 3,
       [XTEXPR_TYPE_NFMARK, XTEXPR_TYPE_NFMARK, XTEXPR_TYPE_CTMARK, XTEXPR_TYPE_CTMARK])"
proof -
  let ?skb = "\<lparr>mark = 5, protocol = 0, nfct = Some \<lparr>ct_mark = 7\<rparr>\<rparr>"
  let ?blk = "[\<lparr>op = XTEXPR_OP_NEG, lh = XTEXPR_TYPE_SUB, rh = XTEXPR_TYPE_SUB\<rparr>,
      \<lparr>op = XTEXPR_OP_NONE, lh = XTEXPR_TYPE_NONE, rh = XTEXPR_TYPE_NFMARK\<rparr>,
      \<lparr>op = XTEXPR_OP_NONE, lh = XTEXPR_TYPE_NONE, rh = XTEXPR_TYPE_CTMARK\<rparr>]"
  have 1: "0 < length ?blk" by simp
  have 2: "XTEXPR_OP_NEG = op (?blk ! 0) AND XTEXPR_OPMASK"
    by (simp add: opmask_keeps_flags)
  have 3: "XTEXPR_OP_NEG \<in> {XTEXPR_OP_NONE, XTEXPR_OP_NEG, XTEXPR_OP_LNOT, XTEXPR_OP_NOT}"
    by simp
  have 4: "lh_operand Little_Endian ?skb ?blk 0
             = Inr (5, 2, [XTEXPR_TYPE_NFMARK, XTEXPR_TYPE_NFMARK])"
    by (simp add: eval_defs)
  have 5: "rh_operand Little_Endian ?skb ?blk 0 2
             = Inr (7, 3, [XTEXPR_TYPE_CTMARK, XTEXPR_TYPE_CTMARK])"
    by (simp add: eval_defs)
  from unary_operator_ignores_rh_value[OF 1 2 3 4 5] show ?thesis
    by auto
qed

section \<open>Division by zero\<close>

text \<open>
  C6, as stated, fails. The evaluator divides without looking at the divisor and has no
  error result to give: with a right operand of 0 (register 0 reads as 0) a DIV or MOD
  node is an unsigned division by zero, which C leaves undefined and which traps on the
  usual hardware. Nothing is stored in \<^verbatim>\<open>*retp\<close> and nothing is returned.
\<close>

theorem division_by_zero_counterexample:
  "xt_expr_descend Little_Endian \<lparr>mark = 5, protocol = 0, nfct = None\<rparr>
     [\<lparr>op = XTEXPR_OP_DIV, lh = XTEXPR_TYPE_NFMARK, rh = XTEXPR_TYPE_NONE\<rparr>] 0
   = Inl Divide_Trap
   \<and> xt_expr_descend Little_Endian \<lparr>mark = 5, protocol = 0, nfct = None\<rparr>
     [\<lparr>op = XTEXPR_OP_MOD, lh = XTEXPR_TYPE_NFMARK, rh = XTEXPR_TYPE_NONE\<rparr>] 0
   = Inl Divide_Trap"
  by (simp add: eval_defs)

text \<open>
  C6, amended. For every node whose switch selects DIV or MOD and whose right operand
  resolves to zero, evaluation of the node crashes in the division, whatever the left
  operand is: it yields neither a number nor an error result.
\<close>

theorem division_by_zero_crashes:
  assumes "i < length blk"
    and "op (blk ! i) AND XTEXPR_OPMASK \<in> {XTEXPR_OP_DIV, XTEXPR_OP_MOD}"
    and "lh_operand bo skb blk i = Inr (l, n1, t1)"
    and "rh_operand bo skb blk i n1 = Inr (0, n2, t2)"
  shows "xt_expr_descend bo skb blk i = Inl Divide_Trap"
proof -
  from assms(2) consider
    (div) "op (blk ! i) AND XTEXPR_OPMASK = XTEXPR_OP_DIV" |
    (mod) "op (blk ! i) AND XTEXPR_OPMASK = XTEXPR_OP_MOD"
    by blast
  then show ?thesis
  proof cases
    case div
    show ?thesis
      unfolding xt_expr_descend_resolved[OF assms(1,3,4)] div by (simp add: switch_DIV)
  next
    case mod
    show ?thesis
      unfolding xt_expr_descend_resolved[OF assms(1,3,4)] mod by (simp add: switch_MOD)
  qed
qed

theorem division_by_zero_crashes_witness:
  "xt_expr_descend Big_Endian \<lparr>mark = 9, protocol = 0, nfct = None\<rparr>
     [\<lparr>op = XTEXPR_OP_MOD, lh = XTEXPR_TYPE_SUB, rh = XTEXPR_TYPE_CTMARK\<rparr>,
      \<lparr>op = XTEXPR_OP_NONE, lh = XTEXPR_TYPE_NONE, rh = XTEXPR_TYPE_NFMARK\<rparr>] 0
   = Inl Divide_Trap"
proof -
  let ?skb = "\<lparr>mark = 9, protocol = 0, nfct = None\<rparr>"
  let ?blk = "[\<lparr>op = XTEXPR_OP_MOD, lh = XTEXPR_TYPE_SUB, rh = XTEXPR_TYPE_CTMARK\<rparr>,
      \<lparr>op = XTEXPR_OP_NONE, lh = XTEXPR_TYPE_NONE, rh = XTEXPR_TYPE_NFMARK\<rparr>]"
  have 1: "0 < length ?blk" by simp
  have 2: "op (?blk ! 0) AND XTEXPR_OPMASK \<in> {XTEXPR_OP_DIV, XTEXPR_OP_MOD}"
    by (simp add: opmask_keeps_flags)
  have 3: "lh_operand Big_Endian ?skb ?blk 0
             = Inr (9, 2, [XTEXPR_TYPE_NFMARK, XTEXPR_TYPE_NFMARK])"
    by (simp add: eval_defs)
  have 4: "rh_operand Big_Endian ?skb ?blk 0 2 = Inr (0, 2, [XTEXPR_TYPE_CTMARK])"
    by (simp add: eval_defs)
  from division_by_zero_crashes[OF 1 2 3 4] show ?thesis .
qed

section \<open>The cursor on well-formed blocks\<close>

text \<open>
  C4, as stated, fails: a single DIV node whose operands are variables is a well-formed
  block of one node, and its evaluation crashes in the division instead of returning
  the cursor 1.
\<close>

theorem well_formed_division_counterexample:
  "well_formed [\<lparr>op = XTEXPR_OP_DIV, lh = XTEXPR_TYPE_NONE, rh = XTEXPR_TYPE_NONE\<rparr>]
   \<and> xt_expr_descend Little_Endian \<lparr>mark = 5, protocol = 0, nfct = None\<rparr>
        [\<lparr>op = XTEXPR_OP_DIV, lh = XTEXPR_TYPE_NONE, rh = XTEXPR_TYPE_NONE\<rparr>] 0
      = Inl Divide_Trap"
  by (simp add: well_formed_def walk_node eval_defs)

text \<open>
  C4, amended. On a well-formed block of \<open>n\<close> nodes, evaluation from index 0 never reads
  a node at index \<open>n\<close> or beyond (it is never \<open>Read_Past_End\<close>), and it returns the
  cursor \<open>n\<close> unless it stops in a division by zero in a DIV or MOD node; in particular
  it returns the cursor \<open>n\<close> whenever no node of the block selects DIV or MOD.
\<close>

theorem well_formed_block_cursor:
  assumes "well_formed blk"
  shows "((\<exists>v t. xt_expr_descend bo skb blk 0 = Inr (v, length blk, t))
          \<or> xt_expr_descend bo skb blk 0 = Inl Divide_Trap)
     \<and> ((\<forall>mx \<in> set blk. op mx AND XTEXPR_OPMASK \<notin> {XTEXPR_OP_DIV, XTEXPR_OP_MOD})
          \<longrightarrow> (\<exists>v t. xt_expr_descend bo skb blk 0 = Inr (v, length blk, t)))"
proof -
  have either: "(\<exists>v t. xt_expr_descend bo skb blk 0 = Inr (v, length blk, t))
      \<or> xt_expr_descend bo skb blk 0 = Inl Divide_Trap"
  proof (cases "xt_expr_descend bo skb blk 0")
    case (Inl e)
    with descend_follows_walk[of blk 0 "length blk" bo skb] assms
    have "e \<noteq> Read_Past_End" by (simp add: well_formed_def)
    with Inl show ?thesis by (cases e) simp_all
  next
    case (Inr d)
    obtain v n t where d: "d = (v, n, t)" by (cases d)
    with Inr descend_follows_walk[of blk 0 "length blk" bo skb] assms
    have "n = length blk" by (simp add: well_formed_def)
    with Inr d show ?thesis by simp
  qed
  moreover have "\<exists>v t. xt_expr_descend bo skb blk 0 = Inr (v, length blk, t)"
    if "\<forall>mx \<in> set blk. op mx AND XTEXPR_OPMASK \<notin> {XTEXPR_OP_DIV, XTEXPR_OP_MOD}"
  proof -
    from that divide_trap_needs_division[of bo skb blk 0]
    have "xt_expr_descend bo skb blk 0 \<noteq> Inl Divide_Trap" by blast
    with either show ?thesis by blast
  qed
  ultimately show ?thesis by blast
qed

theorem well_formed_block_cursor_witness:
  "well_formed
     [\<lparr>op = XTEXPR_OP_ADD, lh = XTEXPR_TYPE_SUB, rh = XTEXPR_TYPE_SUB\<rparr>,
      \<lparr>op = XTEXPR_OP_NONE, lh = XTEXPR_TYPE_NONE, rh = XTEXPR_TYPE_NFMARK\<rparr>,
      \<lparr>op = XTEXPR_OP_SHL, lh = XTEXPR_TYPE_NONE, rh = XTEXPR_TYPE_CTMARK\<rparr>]
   \<and> XTEXPR_OP_ADD AND XTEXPR_OPMASK \<notin> {XTEXPR_OP_DIV, XTEXPR_OP_MOD}
   \<and> XTEXPR_OP_NONE AND XTEXPR_OPMASK \<notin> {XTEXPR_OP_DIV, XTEXPR_OP_MOD}
   \<and> XTEXPR_OP_SHL AND XTEXPR_OPMASK \<notin> {XTEXPR_OP_DIV, XTEXPR_OP_MOD}
   \<and> (\<exists>v t. xt_expr_descend Little_Endian
                \<lparr>mark = 5, protocol = 0, nfct = Some \<lparr>ct_mark = 40\<rparr>\<rparr>
     [\<lparr>op = XTEXPR_OP_ADD, lh = XTEXPR_TYPE_SUB, rh = XTEXPR_TYPE_SUB\<rparr>,
      \<lparr>op = XTEXPR_OP_NONE, lh = XTEXPR_TYPE_NONE, rh = XTEXPR_TYPE_NFMARK\<rparr>,
      \<lparr>op = XTEXPR_OP_SHL, lh = XTEXPR_TYPE_NONE, rh = XTEXPR_TYPE_CTMARK\<rparr>] 0
     = Inr (v, 3, t))"
proof -
  let ?blk = "[\<lparr>op = XTEXPR_OP_ADD, lh = XTEXPR_TYPE_SUB, rh = XTEXPR_TYPE_SUB\<rparr>,
      \<lparr>op = XTEXPR_OP_NONE, lh = XTEXPR_TYPE_NONE, rh = XTEXPR_TYPE_NFMARK\<rparr>,
      \<lparr>op = XTEXPR_OP_SHL, lh = XTEXPR_TYPE_NONE, rh = XTEXPR_TYPE_CTMARK\<rparr>]"
  have wf: "well_formed ?blk"
    by (simp add: well_formed_def walk_node opcode_defs type_defs)
  have nodiv: "\<forall>mx \<in> set ?blk. op mx AND XTEXPR_OPMASK \<notin> {XTEXPR_OP_DIV, XTEXPR_OP_MOD}"
    by (simp add: opmask_keeps_flags opcode_defs)
  from well_formed_block_cursor
         [OF wf, of Little_Endian "\<lparr>mark = 5, protocol = 0, nfct = Some \<lparr>ct_mark = 40\<rparr>\<rparr>"]
       nodiv
  have "\<exists>v t. xt_expr_descend Little_Endian
                \<lparr>mark = 5, protocol = 0, nfct = Some \<lparr>ct_mark = 40\<rparr>\<rparr> ?blk 0
               = Inr (v, length ?blk, t)"
    by blast
  moreover have "length ?blk = 3" by simp
  ultimately have "\<exists>v t. xt_expr_descend Little_Endian
                \<lparr>mark = 5, protocol = 0, nfct = Some \<lparr>ct_mark = 40\<rparr>\<rparr> ?blk 0
               = Inr (v, 3, t)"
    by (simp only:)
  with wf nodiv show ?thesis by simp
qed

end
